theory Spec2Isabelle
  imports Main
begin

section \<open>JavaScript strings and arrays as used by the hook\<close>

text \<open>
  A JavaScript string is modelled as a \<open>string\<close> (a list of characters). A value that
  may be \<open>undefined\<close> at run time is an \<open>option\<close>, with \<open>None\<close> for \<open>undefined\<close>.
\<close>

text \<open>\<open>s.startsWith(t)\<close>, used to define \<open>includes_str\<close>.\<close>

fun startsWith :: "string \<Rightarrow> string \<Rightarrow> bool" where
  "startsWith s [] = True"
| "startsWith [] (c # t) = False"
| "startsWith (d # s) (c # t) = (d = c \<and> startsWith s t)"

text \<open>\<open>s.includes(t)\<close>: the string \<open>t\<close> occurs in \<open>s\<close> at some position.\<close>

fun includes_str :: "string \<Rightarrow> string \<Rightarrow> bool" where
  "includes_str [] t = startsWith [] t"
| "includes_str (d # s) t = (startsWith (d # s) t \<or> includes_str s t)"

text \<open>
  \<open>s.split(sep)\<close> for a separator of one character. The result is never empty:
  \<open>"".split("\n")\<close> is \<open>[""]\<close> and \<open>"a\n".split("\n")\<close> is \<open>["a", ""]\<close>.
\<close>

fun split :: "char \<Rightarrow> string \<Rightarrow> string list" where
  "split sep [] = [[]]"
| "split sep (c # s) =
     (if c = sep then [] # split sep s
      else (case split sep s of
              [] \<Rightarrow> [[c]]
            | piece # pieces \<Rightarrow> (c # piece) # pieces))"

text \<open>
  Reading index \<open>i\<close> of an array, as array destructuring does: \<open>undefined\<close> beyond the
  end.
\<close>

definition elem_at :: "'a list \<Rightarrow> nat \<Rightarrow> 'a option" where
  "elem_at xs i = (if i < length xs then Some (xs ! i) else None)"

section \<open>The list parser\<close>

text \<open>
  \<open>type Option = { label: string; value: string }\<close>. Both fields are filled by
  destructuring \<open>val.split("|")\<close>, so the model keeps them as possibly \<open>undefined\<close>.
\<close>

record Option =
  label :: "string option"
  "value" :: "string option"

text \<open>
  \<^verbatim>\<open>
  function prepareData(data: string): Option[] {
    const list = data.split("\n");
    list.shift();
    return list
      .filter((val) => val.includes("|"))
      .map((val) => {
        const [label, value] = val.split("|");
        return { value, label };
      });
  }
  \<close>
\<close>

definition prepareData :: "string \<Rightarrow> Option list" where
  "prepareData data =
     (let list = split (CHR 0x0A) data;
          list = tl list
      in map (\<lambda>val. let parts = split (CHR ''|'') val
                     in \<lparr>label = elem_at parts 0, value = elem_at parts 1\<rparr>)
             (filter (\<lambda>val. includes_str val ''|'') list))"

text \<open>
  The list format as the specification words it: one entry per line after the header
  that contains a pipe, the label being the text before the pipe and the value the text
  after it. It is compared with \<open>prepareData\<close> below.
\<close>

definition parseList_spec :: "string \<Rightarrow> Option list" where
  "parseList_spec raw =
     map (\<lambda>line. \<lparr>label = Some (takeWhile (\<lambda>c. c \<noteq> CHR ''|'') line),
                  value = Some (tl (dropWhile (\<lambda>c. c \<noteq> CHR ''|'') line))\<rparr>)
         (filter (\<lambda>line. CHR ''|'' \<in> set line) (tl (split (CHR 0x0A) raw)))"

section \<open>Errors and geometries\<close>

text \<open>
  A thrown JavaScript \<open>Error\<close> object, with its \<open>name\<close> and \<open>message\<close>. The outcome
  of a call that may throw (or of a promise that may reject) is \<open>error + 'a\<close>, with
  \<open>Inl\<close> for the thrown error.
\<close>

datatype error = Error (name: string) (message: string)

text \<open>\<open>Error.prototype.toString\<close>, used when an error is appended to a string.\<close>

definition toString :: "error \<Rightarrow> string" where
  "toString e =
     (if name e = [] then message e
      else if message e = [] then name e
      else name e @ '': '' @ message e)"

text \<open>
  The GeoJSON \<open>Geometry\<close> union of the \<open>geojson\<close> typings. A \<open>Position\<close> is an array
  of numbers; the type of numbers is left open.
\<close>

type_synonym 'n Position = "'n list"

datatype 'n Geometry =
    Point "'n Position"
  | MultiPoint "'n Position list"
  | LineString "'n Position list"
  | MultiLineString "'n Position list list"
  | Polygon "'n Position list list"
  | MultiPolygon "'n Position list list list"
  | GeometryCollection "'n Geometry list"

text \<open>
  \<open>xs.map(f)\<close> for a callback that may throw: the elements are visited from left to
  right and the first error thrown ends the call.
\<close>

fun map_throwing :: "('a \<Rightarrow> error + 'b) \<Rightarrow> 'a list \<Rightarrow> error + 'b list" where
  "map_throwing f [] = Inr []"
| "map_throwing f (x # xs) =
     (case f x of
        Inl e \<Rightarrow> Inl e
      | Inr y \<Rightarrow> (case map_throwing f xs of
                   Inl e \<Rightarrow> Inl e
                 | Inr ys \<Rightarrow> Inr (y # ys)))"

section \<open>Reprojection\<close>

text \<open>
  The two libraries are parameters of the model. \<open>proj4 src dst coords\<close> stands for
  the call \<open>proj4(src, dst, coords)\<close>: it receives an array whose entries may be
  \<open>undefined\<close> and returns an array of numbers, or throws. \<open>parse s\<close> stands for
  \<open>wkx.Geometry.parse(Buffer.from(s, "hex")).toGeoJSON()\<close>: the decoded geometry, or
  the error thrown by the decoder.

  \<^verbatim>\<open>
  const transformPolygonCoordinates = (coord: Position[][]): Position[][] => {
    const sourceProj = "EPSG:2180";
    const destProj = "EPSG:4326"; // WGS84 Lat/Lng
    return coord.map((ring) =>
      ring.map(([x, y]) => proj4(sourceProj, destProj, [x, y]))
    );
  };
  \<close>
\<close>

type_synonym 'n proj4 = "string \<Rightarrow> string \<Rightarrow> 'n option list \<Rightarrow> error + 'n Position"

type_synonym 'n parse = "string \<Rightarrow> error + 'n Geometry"

definition transformPolygonCoordinates ::
  "'n proj4 \<Rightarrow> 'n Position list list \<Rightarrow> error + 'n Position list list" where
  "transformPolygonCoordinates proj4 coord =
     (let sourceProj = ''EPSG:2180'';
          destProj = ''EPSG:4326''
      in map_throwing
           (\<lambda>ring. map_throwing
                      (\<lambda>p. let x = elem_at p 0; y = elem_at p 1
                            in proj4 sourceProj destProj [x, y])
                      ring)
           coord)"

text \<open>
  \<^verbatim>\<open>
  function from2180to4326(wkbFormatString: string): Geometry {
    const sourceProj = "EPSG:2180";
    const destProj = "EPSG:4326"; // WGS84 Lat/Lng
    const geometry = wkx.Geometry.parse(Buffer.from(wkbFormatString, "hex"));
    const geojson = geometry.toGeoJSON() as Geometry;
    if (geojson.type === "Polygon") {
      geojson.coordinates = transformPolygonCoordinates(geojson.coordinates);
    }
    if (geojson.type === "MultiPolygon") {
      geojson.coordinates = geojson.coordinates.map((ring) => {
        return transformPolygonCoordinates(ring);
      });
    } else if (geojson.type === "Point") {
      geojson.coordinates = proj4(sourceProj, destProj, geojson.coordinates);
    }
    return geojson;
  }
  \<close>
  The first \<open>if\<close> and the \<open>if\<close>/\<open>else if\<close> after it run one after the other on the
  same object, as in the source.
\<close>

definition from2180to4326 :: "'n parse \<Rightarrow> 'n proj4 \<Rightarrow> string \<Rightarrow> error + 'n Geometry" where
  "from2180to4326 parse proj4 wkbFormatString =
     (let sourceProj = ''EPSG:2180'';
          destProj = ''EPSG:4326''
      in case parse wkbFormatString of
           Inl e \<Rightarrow> Inl e
         | Inr geojson \<Rightarrow>
            (case (case geojson of
                     Polygon coordinates \<Rightarrow>
                       (case transformPolygonCoordinates proj4 coordinates of
                          Inl e \<Rightarrow> Inl e
                        | Inr coordinates' \<Rightarrow> Inr (Polygon coordinates'))
                   | _ \<Rightarrow> Inr geojson) of
               Inl e \<Rightarrow> Inl e
             | Inr geojson \<Rightarrow>
                (case geojson of
                   MultiPolygon coordinates \<Rightarrow>
                     (case map_throwing (\<lambda>ring. transformPolygonCoordinates proj4 ring)
                             coordinates of
                        Inl e \<Rightarrow> Inl e
                      | Inr coordinates' \<Rightarrow> Inr (MultiPolygon coordinates'))
                 | Point coordinates \<Rightarrow>
                     (case proj4 sourceProj destProj (map Some coordinates) of
                        Inl e \<Rightarrow> Inl e
                      | Inr coordinates' \<Rightarrow> Inr (Point coordinates'))
                 | _ \<Rightarrow> Inr geojson)))"

section \<open>The geometry pipeline\<close>

text \<open>
  \<^verbatim>\<open>
  function prepareGeometry(data: string): Geometry[] | undefined {
    try {
      const [status, ...response] = data.split("\n");
      if (status.includes("-1")) {
        throw new Error("Resource not found");
      }
      return response.filter(Boolean).map((wkd) => from2180to4326(wkd));
    } catch (error) {
      console.log(error);
    }
  }
  \<close>
  \<open>prepareGeometry_try\<close> is the body of the \<open>try\<close> block. Destructuring an empty
  array would leave \<open>status\<close> undefined and \<open>status.includes\<close> would throw a
  \<open>TypeError\<close>.
\<close>

definition prepareGeometry_try ::
  "'n parse \<Rightarrow> 'n proj4 \<Rightarrow> string \<Rightarrow> error + 'n Geometry list" where
  "prepareGeometry_try parse proj4 data =
     (case split (CHR 0x0A) data of
        [] \<Rightarrow> Inl (Error ''TypeError'' ''Cannot read properties of undefined'')
      | status # response \<Rightarrow>
          if includes_str status ''-1'' then Inl (Error ''Error'' ''Resource not found'')
          else map_throwing (\<lambda>wkd. from2180to4326 parse proj4 wkd)
                 (filter (\<lambda>wkd. wkd \<noteq> []) response))"

text \<open>
  The whole function: its outcome (\<open>Inr None\<close> is the return of \<open>undefined\<close>, \<open>Inl\<close>
  would be an error thrown to the caller) and what it writes to the console.
\<close>

definition prepareGeometry ::
  "'n parse \<Rightarrow> 'n proj4 \<Rightarrow> string \<Rightarrow> (error + 'n Geometry list option) \<times> error list" where
  "prepareGeometry parse proj4 data =
     (case prepareGeometry_try parse proj4 data of
        Inr geometries \<Rightarrow> (Inr (Some geometries), [])
      | Inl err \<Rightarrow> (Inr None, [err]))"

section \<open>The hook\<close>

text \<open>
  The five \<open>useState\<close> slots of \<open>useUldk\<close>, together with the two effects of the
  hook on its surroundings: the URLs requested with \<open>fetch\<close>, in order, and the errors
  written to the console.
\<close>

record hook =
  voivodeships :: "Option list"
  districts :: "Option list"
  tenants :: "Option list"
  precincts :: "Option list"
  error :: "string option"
  requests :: "string list"
  console :: "error list"

text \<open>The state of the first render: empty lists and \<open>error = null\<close>.\<close>

definition initial :: hook where
  "initial = \<lparr>voivodeships = [], districts = [], tenants = [], precincts = [],
              error = None, requests = [], console = []\<rparr>"

text \<open>
  The network is a parameter: \<open>net url\<close> is the text of the response to
  \<open>fetch(url)\<close> (the \<open>await fetch(url)\<close> followed by \<open>await resp.text()\<close>), or the error
  with which either promise rejects. A call of
  \<open>fetchObject\<close> is run up to its end when it is made, which keeps the order in
  which the requests are issued and the order in which such calls log their errors.
\<close>

type_synonym net = "string \<Rightarrow> error + string"

text \<open>
  What \<open>fetchObject\<close> resolves to: the array built by \<open>prepareData\<close>, or the closure
  \<open>() => controller.abort()\<close>.

  \<^verbatim>\<open>
  const fetchObject = useCallback(
    async ({ object, teryt }: { object: string; teryt: string }) => {
      const controller = new AbortController();
      try {
        const resp = await fetch(
          `https://uldk.gugik.gov.pl/service.php?obiekt=${object}&wynik=${object},teryt&teryt=${teryt}`,
          { signal: controller.signal }
        );
        const data = await resp.text();
        return prepareData(data);
      } catch (error) {
        if (error.name !== "AbortError") {
          console.error(error);
        }
      }
      return () => controller.abort();
    }, []);
  \<close>
\<close>

datatype fetched = OptionArray "Option list" | AbortClosure

text \<open>The template literal of \<open>fetchObject\<close>.\<close>

definition objectUrl :: "string \<Rightarrow> string \<Rightarrow> string" where
  "objectUrl object teryt =
     ''https://uldk.gugik.gov.pl/service.php?obiekt='' @ object
     @ ''&wynik='' @ object @ '',teryt&teryt='' @ teryt"

definition fetchObject :: "net \<Rightarrow> string \<Rightarrow> string \<Rightarrow> hook \<Rightarrow> fetched \<times> hook" where
  "fetchObject net object teryt h =
     (let url = objectUrl object teryt;
          h = h\<lparr>requests := requests h @ [url]\<rparr>
      in case net url of
           Inr data \<Rightarrow> (OptionArray (prepareData data), h)
         | Inl err \<Rightarrow>
             (AbortClosure,
              if name err \<noteq> ''AbortError'' then h\<lparr>console := console h @ [err]\<rparr>
              else h))"

text \<open>
  The effect that runs once after the first render.
  \<^verbatim>\<open>
  useEffect(() => {
    fetch("https://uldk.gugik.gov.pl/service.php?obiekt=wojewodztwo&wynik=wojewodztwo,teryt")
      .then((resp) => resp.text())
      .then((data) => {
        setVoivodeships(prepareData(data) || []);
      })
      .catch((e) => {
        console.error(e);
        setError("Failed to fetch voivodeships" + e);
      });
  }, []);
  \<close>
  An array is truthy, so \<open>prepareData(data) || []\<close> is \<open>prepareData(data)\<close>.
  The effect is in two parts: \<open>requestVoivodeships\<close> is the call of \<open>fetch\<close>, made
  when the effect runs, and \<open>settleVoivodeships\<close> is what the handlers of the promise
  chain do once the request has settled.
\<close>

definition voivodeshipsUrl :: string where
  "voivodeshipsUrl =
     ''https://uldk.gugik.gov.pl/service.php?obiekt=wojewodztwo&wynik=wojewodztwo,teryt''"

definition requestVoivodeships :: "hook \<Rightarrow> hook" where
  "requestVoivodeships h = h\<lparr>requests := requests h @ [voivodeshipsUrl]\<rparr>"

definition settleVoivodeships :: "net \<Rightarrow> hook \<Rightarrow> hook" where
  "settleVoivodeships net h =
     (case net voivodeshipsUrl of
        Inr data \<Rightarrow> h\<lparr>voivodeships := prepareData data\<rparr>
      | Inl e \<Rightarrow> h\<lparr>console := console h @ [e],
                   error := Some (''Failed to fetch voivodeships'' @ toString e)\<rparr>)"

text \<open>
  \<^verbatim>\<open>
  const fetchDistricts = useCallback(
    async (value: string) => {
      try {
        const object = await fetchObject({ object: "powiat", teryt: value });
        if (Array.isArray(object)) {
          setDistricts(object || []);
        }
      } catch (e) {
        console.error(e);
      }
    }, [fetchObject]);
  const fetchTenants = async (value: string) => {
    const object = await fetchObject({ object: "gmina", teryt: value });
    if (Array.isArray(object)) {
      setTenants(object || []);
    }
  };
  const fetchPrecincts = useCallback(
    async (value: string) => {
      const object = await fetchObject({ object: "obreb", teryt: value });
      if (Array.isArray(object)) {
        setPrecincts(object || []);
      }
    }, [fetchObject]);
  \<close>
  \<open>fetchObject\<close> catches every error itself, so nothing in the \<open>try\<close> block of
  \<open>fetchDistricts\<close> throws and its \<open>catch\<close> branch is never entered.
\<close>

definition fetchDistricts :: "net \<Rightarrow> string \<Rightarrow> hook \<Rightarrow> hook" where
  "fetchDistricts net v h =
     (case fetchObject net ''powiat'' v h of
        (OptionArray object, h') \<Rightarrow> h'\<lparr>districts := object\<rparr>
      | (AbortClosure, h') \<Rightarrow> h')"

definition fetchTenants :: "net \<Rightarrow> string \<Rightarrow> hook \<Rightarrow> hook" where
  "fetchTenants net v h =
     (case fetchObject net ''gmina'' v h of
        (OptionArray object, h') \<Rightarrow> h'\<lparr>tenants := object\<rparr>
      | (AbortClosure, h') \<Rightarrow> h')"

definition fetchPrecincts :: "net \<Rightarrow> string \<Rightarrow> hook \<Rightarrow> hook" where
  "fetchPrecincts net v h =
     (case fetchObject net ''obreb'' v h of
        (OptionArray object, h') \<Rightarrow> h'\<lparr>precincts := object\<rparr>
      | (AbortClosure, h') \<Rightarrow> h')"

text \<open>
  \<^verbatim>\<open>
  const getRegionGeometryById = useCallback(async (regionId: string) => {
    const resp = await fetch(`https://uldk.gugik.gov.pl/?request=GetRegionById&id=${regionId}`);
    const data = await resp.text();
    return prepareGeometry(data);
  }, []);
  const getParcelGeometryById = useCallback(async (parcelId: string) => {
    const resp = await fetch(`https://uldk.gugik.gov.pl/?request=GetParcelById&id=${parcelId}`);
    const data = await resp.text();
    return prepareGeometry(data);
  }, []);
  \<close>
  The first component is the promise handed to the caller: \<open>Inl e\<close> when it rejects
  with \<open>e\<close>, \<open>Inr r\<close> when it resolves to \<open>r\<close>.
\<close>

definition getRegionGeometryById ::
  "net \<Rightarrow> 'n parse \<Rightarrow> 'n proj4 \<Rightarrow> string \<Rightarrow> hook \<Rightarrow> (error + 'n Geometry list option) \<times> hook" where
  "getRegionGeometryById net parse proj4 regionId h =
     (let url = ''https://uldk.gugik.gov.pl/?request=GetRegionById&id='' @ regionId;
          h = h\<lparr>requests := requests h @ [url]\<rparr>
      in case net url of
           Inl e \<Rightarrow> (Inl e, h)
         | Inr data \<Rightarrow>
             (case prepareGeometry parse proj4 data of
                (result, logged) \<Rightarrow> (result, h\<lparr>console := console h @ logged\<rparr>)))"

definition getParcelGeometryById ::
  "net \<Rightarrow> 'n parse \<Rightarrow> 'n proj4 \<Rightarrow> string \<Rightarrow> hook \<Rightarrow> (error + 'n Geometry list option) \<times> hook" where
  "getParcelGeometryById net parse proj4 parcelId h =
     (let url = ''https://uldk.gugik.gov.pl/?request=GetParcelById&id='' @ parcelId;
          h = h\<lparr>requests := requests h @ [url]\<rparr>
      in case net url of
           Inl e \<Rightarrow> (Inl e, h)
         | Inr data \<Rightarrow>
             (case prepareGeometry parse proj4 data of
                (result, logged) \<Rightarrow> (result, h\<lparr>console := console h @ logged\<rparr>)))"

text \<open>
  The argument of the hook: \<open>undefined\<close>, or an object whose three fields are optional.
  \<^verbatim>\<open>
  type useUldkPropsType =
    | { voivodeship?: string; district?: string; tenant?: string }
    | undefined;
  \<close>
\<close>

record useUldkProps =
  voivodeship :: "string option"
  district :: "string option"
  tenant :: "string option"

text \<open>\<open>props?.field\<close>: undefined when \<open>props\<close> is.\<close>

definition optional_chain :: "useUldkProps option \<Rightarrow> (useUldkProps \<Rightarrow> string option) \<Rightarrow> string option" where
  "optional_chain props field = (case props of None \<Rightarrow> None | Some p \<Rightarrow> field p)"

text \<open>
  The effect that seeds the cascade.
  \<^verbatim>\<open>
  useEffect(() => {
    if (props?.voivodeship) fetchDistricts(props.voivodeship);
    if (props?.district) fetchTenants(props.district);
    if (props?.tenant) fetchPrecincts(props.tenant);
  }, [props?.voivodeship, props?.district, props?.tenant]);
  \<close>
  An undefined field and the empty string are both falsy. The effect runs after the
  first render, and again only when one of the three codes changes.
\<close>

definition seedCascade :: "net \<Rightarrow> useUldkProps option \<Rightarrow> hook \<Rightarrow> hook" where
  "seedCascade net props h =
     (let h = (case optional_chain props voivodeship of
                 None \<Rightarrow> h
               | Some v \<Rightarrow> if v \<noteq> [] then fetchDistricts net v h else h);
          h = (case optional_chain props district of
                 None \<Rightarrow> h
               | Some d \<Rightarrow> if d \<noteq> [] then fetchTenants net d h else h);
          h = (case optional_chain props tenant of
                 None \<Rightarrow> h
               | Some t \<Rightarrow> if t \<noteq> [] then fetchPrecincts net t h else h)
      in h)"

text \<open>
  Mounting the hook: the first render, then the two effects in the order in which the
  source declares them. The request for the voivodeships is issued first. Its handlers
  sit behind two \<open>then\<close> and one \<open>catch\<close>, while the seeded fetches await
  their request directly: with all responses at hand, the seeded fetches finish before
  the handlers of the voivodeships run. The slots they write are different, so only
  the order of the console depends on this.
\<close>

definition useUldk :: "net \<Rightarrow> useUldkProps option \<Rightarrow> hook" where
  "useUldk net props =
     settleVoivodeships net (seedCascade net props (requestVoivodeships initial))"

section \<open>Facts about the string and array operations\<close>

text \<open>
  \<open>split\<close> cuts a text into its lines: a text is its first line followed by the other
  lines, each behind a separator, and this is the only way to cut it into pieces that
  hold no separator.
\<close>

lemma split_not_Nil: "split sep s \<noteq> []"
  by (induction s) (simp_all split: list.splits)

lemma split_no_sep: "sep \<notin> set s \<Longrightarrow> split sep s = [s]"
  by (induction s) auto

lemma hd_split: "hd (split sep s) = takeWhile (\<lambda>c. c \<noteq> sep) s"
  by (induction s) (auto split: list.splits simp: split_not_Nil)

lemma split_append_sep: "sep \<notin> set h \<Longrightarrow> split sep (h @ sep # r) = h # split sep r"
  by (induction h) auto

lemma split_lines:
  "sep \<notin> set h \<Longrightarrow> \<forall>l \<in> set ls. sep \<notin> set l \<Longrightarrow>
   split sep (h @ concat (map (\<lambda>l. sep # l) ls)) = h # ls"
proof (induction ls arbitrary: h)
  case Nil
  then show ?case by (simp add: split_no_sep)
next
  case (Cons l ls)
  have "split sep (h @ concat (map (\<lambda>l. sep # l) (l # ls)))
        = h # split sep (l @ concat (map (\<lambda>l. sep # l) ls))"
    using Cons.prems(1) by (simp add: split_append_sep)
  also have "split sep (l @ concat (map (\<lambda>l. sep # l) ls)) = l # ls"
    using Cons.prems(2) by (intro Cons.IH) simp_all
  finally show ?case .
qed

lemma lines_of_split:
  "s = hd (split sep s) @ concat (map (\<lambda>l. sep # l) (tl (split sep s)))
   \<and> (\<forall>l \<in> set (split sep s). sep \<notin> set l)"
  by (induction s) (auto split: list.splits simp: split_not_Nil)

lemma split_first_two:
  "sep \<in> set s \<Longrightarrow>
   \<exists>rest. split sep s =
     takeWhile (\<lambda>c. c \<noteq> sep) s
     # takeWhile (\<lambda>c. c \<noteq> sep) (tl (dropWhile (\<lambda>c. c \<noteq> sep) s)) # rest"
proof (induction s)
  case Nil
  then show ?case by simp
next
  case (Cons c s)
  show ?case
  proof (cases "c = sep")
    case True
    obtain p ps where "split sep s = p # ps"
      using split_not_Nil by (cases "split sep s") auto
    moreover have "p = takeWhile (\<lambda>c. c \<noteq> sep) s"
      using hd_split [of sep s] calculation by simp
    ultimately show ?thesis using True by simp
  next
    case False
    then show ?thesis using Cons by auto
  qed
qed

lemma startsWith_iff: "startsWith s t \<longleftrightarrow> (\<exists>v. s = t @ v)"
  by (induction s t rule: startsWith.induct) auto

lemma includes_str_iff: "includes_str s t \<longleftrightarrow> (\<exists>u v. s = u @ t @ v)"
proof (induction s)
  case Nil
  then show ?case by (auto simp: startsWith_iff)
next
  case (Cons d s)
  show ?case
  proof
    assume "includes_str (d # s) t"
    then consider "startsWith (d # s) t" | "includes_str s t" by auto
    then show "\<exists>u v. d # s = u @ t @ v"
    proof cases
      case 1
      then obtain v where "d # s = t @ v" using startsWith_iff by blast
      then have "d # s = [] @ t @ v" by simp
      then show ?thesis by blast
    next
      case 2
      then obtain u v where "s = u @ t @ v" using Cons.IH by blast
      then have "d # s = (d # u) @ t @ v" by simp
      then show ?thesis by blast
    qed
  next
    assume "\<exists>u v. d # s = u @ t @ v"
    then obtain u v where uv: "d # s = u @ t @ v" by blast
    show "includes_str (d # s) t"
    proof (cases u)
      case Nil
      then have "startsWith (d # s) t" using uv startsWith_iff by auto
      then show ?thesis by simp
    next
      case (Cons a u')
      then have "s = u' @ t @ v" using uv by simp
      then have "includes_str s t" using Cons.IH by blast
      then show ?thesis by simp
    qed
  qed
qed

lemma includes_str_char: "includes_str s [c] \<longleftrightarrow> c \<in> set s"
  by (induction s) auto

lemma elem_at_split:
  assumes "sep \<in> set s"
  shows "elem_at (split sep s) 0 = Some (takeWhile (\<lambda>c. c \<noteq> sep) s)"
    and "elem_at (split sep s) (Suc 0) =
         Some (takeWhile (\<lambda>c. c \<noteq> sep) (tl (dropWhile (\<lambda>c. c \<noteq> sep) s)))"
proof -
  obtain rest where "split sep s =
     takeWhile (\<lambda>c. c \<noteq> sep) s
     # takeWhile (\<lambda>c. c \<noteq> sep) (tl (dropWhile (\<lambda>c. c \<noteq> sep) s)) # rest"
    using split_first_two [OF assms] by blast
  then show "elem_at (split sep s) 0 = Some (takeWhile (\<lambda>c. c \<noteq> sep) s)"
    and "elem_at (split sep s) (Suc 0) =
         Some (takeWhile (\<lambda>c. c \<noteq> sep) (tl (dropWhile (\<lambda>c. c \<noteq> sep) s)))"
    by (simp_all add: elem_at_def)
qed

section \<open>The list parser: what it returns\<close>

text \<open>
  C2, as the code has it. Every input is a header line followed by lines \<open>ls\<close>, each
  behind a newline. \<open>prepareData\<close> discards the header and returns, in input order,
  one \<open>Option\<close> for each line of \<open>ls\<close> that contains a pipe; lines without a pipe,
  the empty ones among them, are dropped. The label is the text before the first pipe.
  The value is the text between the first pipe and the second one, or the end of the
  line when there is no second pipe. Neither field is ever undefined.
\<close>

theorem prepareData_lines:
  assumes "CHR 0x0A \<notin> set header" and "\<forall>l \<in> set ls. CHR 0x0A \<notin> set l"
  shows "prepareData (header @ concat (map (\<lambda>l. CHR 0x0A # l) ls)) =
         map (\<lambda>l. \<lparr>label = Some (takeWhile (\<lambda>c. c \<noteq> CHR ''|'') l),
                   value = Some (takeWhile (\<lambda>c. c \<noteq> CHR ''|'')
                                   (tl (dropWhile (\<lambda>c. c \<noteq> CHR ''|'') l)))\<rparr>)
             (filter (\<lambda>l. CHR ''|'' \<in> set l) ls)"
proof -
  have "split (CHR 0x0A) (header @ concat (map (\<lambda>l. CHR 0x0A # l) ls)) = header # ls"
    using assms by (rule split_lines)
  then show ?thesis
    by (simp add: prepareData_def includes_str_char elem_at_split cong: map_cong)
qed

theorem prepareData_lines_witness:
  "prepareData ''header\<newline>A|1\<newline>B|2\<newline>'' =
     [\<lparr>label = Some ''A'', value = Some ''1''\<rparr>, \<lparr>label = Some ''B'', value = Some ''2''\<rparr>]
   \<and> prepareData ''header'' = []"
  using prepareData_lines [of "''header''" "[''A|1'', ''B|2'', [] ]"]
        prepareData_lines [of "''header''" "[]"]
  by simp

text \<open>
  C2 as the specification words it takes the whole text after the pipe for the value.
  On a line with two pipes the code returns less: the value stops at the second pipe.
\<close>

theorem prepareData_second_pipe:
  "prepareData ''header\<newline>A|1|x'' = [\<lparr>label = Some ''A'', value = Some ''1''\<rparr>]
   \<and> prepareData ''header\<newline>A|1|x'' \<noteq> parseList_spec ''header\<newline>A|1|x''"
  by (simp add: prepareData_def parseList_spec_def elem_at_def)

section \<open>The geometry pipeline: failures\<close>

text \<open>
  C1. When the first line of the response contains \<open>-1\<close>, the \<open>try\<close> block throws the
  error \<open>Resource not found\<close>, whatever the other lines hold; \<open>prepareGeometry\<close>
  writes that error to the console and returns \<open>undefined\<close>, so no list of geometries
  is produced.
\<close>

theorem prepareGeometry_not_found:
  assumes "CHR 0x0A \<notin> set status" and "\<forall>l \<in> set ls. CHR 0x0A \<notin> set l"
    and "includes_str status ''-1''"
  shows "prepareGeometry parse proj4 (status @ concat (map (\<lambda>l. CHR 0x0A # l) ls)) =
         (Inr None, [Error ''Error'' ''Resource not found''])"
proof -
  have "split (CHR 0x0A) (status @ concat (map (\<lambda>l. CHR 0x0A # l) ls)) = status # ls"
    using assms(1,2) by (rule split_lines)
  then show ?thesis
    using assms(3) by (simp add: prepareGeometry_def prepareGeometry_try_def)
qed

theorem prepareGeometry_not_found_witness:
  "prepareGeometry (\<lambda>s. Inr (Point [0 :: int, 0])) (\<lambda>src dst c. Inr [0, 0]) ''-1\<newline>''
   = (Inr None, [Error ''Error'' ''Resource not found''])"
  using prepareGeometry_not_found
          [of "''-1''" "[ [] ]" "\<lambda>s. Inr (Point [0 :: int, 0])" "\<lambda>src dst c. Inr [0, 0]"]
  by simp

lemma map_throwing_Inr_D:
  "map_throwing f xs = Inr ys \<Longrightarrow> list_all2 (\<lambda>x y. f x = Inr y) xs ys"
  by (induction xs arbitrary: ys) (auto split: sum.splits)

lemma map_throwing_Inr_I:
  "list_all2 (\<lambda>x y. f x = Inr y) xs ys \<Longrightarrow> map_throwing f xs = Inr ys"
  by (induction rule: list_all2_induct) simp_all

lemma map_throwing_Inr_iff:
  "map_throwing f xs = Inr ys \<longleftrightarrow> list_all2 (\<lambda>x y. f x = Inr y) xs ys"
  using map_throwing_Inr_D map_throwing_Inr_I by blast

lemma map_throwing_fails:
  "x \<in> set xs \<Longrightarrow> f x = Inl e \<Longrightarrow> \<exists>err. map_throwing f xs = Inl err"
  by (induction xs) (auto split: sum.splits)

lemma map_throwing_returns:
  "\<forall>x \<in> set xs. \<exists>y. f x = Inr y \<Longrightarrow> \<exists>ys. map_throwing f xs = Inr ys"
  by (induction xs) (auto split: sum.splits)

lemma from2180to4326_decode_error:
  "parse s = Inl e \<Longrightarrow> from2180to4326 parse proj4 s = Inl e"
  by (simp add: from2180to4326_def)

lemma prepareGeometry_never_throws:
  "\<exists>result. fst (prepareGeometry parse proj4 data) = Inr result"
  by (simp add: prepareGeometry_def split: sum.splits)

text \<open>
  C4. When the status line does not contain \<open>-1\<close> and the decoder throws on some
  non-empty line, \<open>prepareGeometry\<close> returns \<open>undefined\<close> and logs one error: the
  geometries decoded from the other lines are not returned, and nothing is thrown to
  the caller.
\<close>

theorem prepareGeometry_all_or_nothing:
  assumes "CHR 0x0A \<notin> set status" and "\<forall>l \<in> set ls. CHR 0x0A \<notin> set l"
    and "\<not> includes_str status ''-1''"
    and "line \<in> set ls" and "line \<noteq> []" and "parse line = Inl e"
  shows "\<exists>err. prepareGeometry parse proj4 (status @ concat (map (\<lambda>l. CHR 0x0A # l) ls)) =
               (Inr None, [err])"
proof -
  have "split (CHR 0x0A) (status @ concat (map (\<lambda>l. CHR 0x0A # l) ls)) = status # ls"
    using assms(1,2) by (rule split_lines)
  moreover have "line \<in> set (filter (\<lambda>wkd. wkd \<noteq> []) ls)"
    using assms(4,5) by simp
  then have "\<exists>err. map_throwing (\<lambda>wkd. from2180to4326 parse proj4 wkd)
                 (filter (\<lambda>wkd. wkd \<noteq> []) ls) = Inl err"
    using from2180to4326_decode_error [of parse line e proj4] assms(6)
    by (intro map_throwing_fails [where x = line and e = e]) simp_all
  ultimately show ?thesis
    using assms(3) by (auto simp add: prepareGeometry_def prepareGeometry_try_def)
qed

theorem prepareGeometry_all_or_nothing_witness:
  "\<exists>err. prepareGeometry
            (\<lambda>s. if s = ''00'' then Inr (Point [0 :: int, 0])
                  else Inl (Error ''Error'' ''Could not parse''))
            (\<lambda>src dst c. Inr [0, 0]) ''0\<newline>00\<newline>zz''
          = (Inr None, [err])"
  using prepareGeometry_all_or_nothing
          [of "''0''" "[''00'', ''zz'']" "''zz''"
              "\<lambda>s. if s = ''00'' then Inr (Point [0 :: int, 0])
                   else Inl (Error ''Error'' ''Could not parse'')"
              "Error ''Error'' ''Could not parse''" "\<lambda>src dst c. Inr [0, 0]"]
  by simp

section \<open>Reprojection: dispatch and structure\<close>

lemma transform_Inr_iff:
  "transformPolygonCoordinates proj4 coord = Inr coord' \<longleftrightarrow>
   list_all2 (list_all2 (\<lambda>p q. proj4 ''EPSG:2180'' ''EPSG:4326'' [elem_at p 0, elem_at p 1] = Inr q))
     coord coord'"
  by (simp add: transformPolygonCoordinates_def map_throwing_Inr_iff)

text \<open>
  C3. \<open>from2180to4326\<close> dispatches on the type of the decoded geometry. It returns
  \<open>g'\<close> exactly when: for a \<open>Point\<close>, \<open>g'\<close> is the \<open>Point\<close> whose coordinates are the
  projection of the point's coordinates; for a \<open>Polygon\<close>, \<open>g'\<close> is a \<open>Polygon\<close> whose
  rings hold, position by position, the projection of the coordinate pair of each
  point of each ring; for a \<open>MultiPolygon\<close>, the same for every ring of every polygon.
  A geometry of any other type is returned as it was decoded.
\<close>

theorem from2180to4326_dispatch:
  assumes "parse s = Inr g"
  shows "case g of
           Point c \<Rightarrow>
             (\<forall>g'. from2180to4326 parse proj4 s = Inr g' \<longleftrightarrow>
                (\<exists>c'. g' = Point c' \<and> proj4 ''EPSG:2180'' ''EPSG:4326'' (map Some c) = Inr c'))
         | Polygon rings \<Rightarrow>
             (\<forall>g'. from2180to4326 parse proj4 s = Inr g' \<longleftrightarrow>
                (\<exists>rings'. g' = Polygon rings' \<and>
                   list_all2 (list_all2 (\<lambda>p q. proj4 ''EPSG:2180'' ''EPSG:4326''
                                                 [elem_at p 0, elem_at p 1] = Inr q))
                     rings rings'))
         | MultiPolygon polygons \<Rightarrow>
             (\<forall>g'. from2180to4326 parse proj4 s = Inr g' \<longleftrightarrow>
                (\<exists>polygons'. g' = MultiPolygon polygons' \<and>
                   list_all2 (list_all2 (list_all2 (\<lambda>p q. proj4 ''EPSG:2180'' ''EPSG:4326''
                                                 [elem_at p 0, elem_at p 1] = Inr q)))
                     polygons polygons'))
         | _ \<Rightarrow> from2180to4326 parse proj4 s = Inr g"
proof (cases g)
  case (Point c)
  then show ?thesis
    using assms by (auto simp: from2180to4326_def split: sum.splits)
next
  case (Polygon rings)
  have "from2180to4326 parse proj4 s =
          (case transformPolygonCoordinates proj4 rings of
             Inl e \<Rightarrow> Inl e
           | Inr rings' \<Rightarrow> Inr (Polygon rings'))"
    using assms Polygon by (simp add: from2180to4326_def split: sum.splits)
  then have "\<forall>g'. from2180to4326 parse proj4 s = Inr g' \<longleftrightarrow>
               (\<exists>rings'. g' = Polygon rings'
                  \<and> transformPolygonCoordinates proj4 rings = Inr rings')"
    by (auto split: sum.splits)
  then show ?thesis
    unfolding Polygon transform_Inr_iff by simp
next
  case (MultiPolygon polygons)
  have iff: "map_throwing (\<lambda>ring. transformPolygonCoordinates proj4 ring) polygons = Inr polygons'
        \<longleftrightarrow> list_all2 (list_all2 (list_all2 (\<lambda>p q. proj4 ''EPSG:2180'' ''EPSG:4326''
                                                 [elem_at p 0, elem_at p 1] = Inr q)))
                     polygons polygons'" for polygons'
    by (simp add: map_throwing_Inr_iff transform_Inr_iff)
  have "from2180to4326 parse proj4 s =
          (case map_throwing (\<lambda>ring. transformPolygonCoordinates proj4 ring) polygons of
             Inl e \<Rightarrow> Inl e
           | Inr polygons' \<Rightarrow> Inr (MultiPolygon polygons'))"
    using assms MultiPolygon by (simp add: from2180to4326_def split: sum.splits)
  then have "\<forall>g'. from2180to4326 parse proj4 s = Inr g' \<longleftrightarrow>
               (\<exists>polygons'. g' = MultiPolygon polygons'
                  \<and> map_throwing (\<lambda>ring. transformPolygonCoordinates proj4 ring) polygons
                      = Inr polygons')"
    by (auto split: sum.splits)
  then show ?thesis
    unfolding MultiPolygon iff by simp
qed (use assms in \<open>simp_all add: from2180to4326_def\<close>)

theorem from2180to4326_dispatch_witness:
  "from2180to4326 (\<lambda>s. Inr (Polygon [[[1 :: int, 2], [3, 4]]]))
     (\<lambda>src dst c. Inr (map (\<lambda>v. case v of None \<Rightarrow> 0 | Some n \<Rightarrow> n + 10) c)) ''00''
   = Inr (Polygon [[[11, 12], [13, 14]]])
   \<and> from2180to4326 (\<lambda>s. Inr (LineString [[1 :: int, 2], [3, 4]]))
     (\<lambda>src dst c. Inr (map (\<lambda>v. case v of None \<Rightarrow> 0 | Some n \<Rightarrow> n + 10) c)) ''00''
   = Inr (LineString [[1, 2], [3, 4]])"
  using from2180to4326_dispatch
          [of "\<lambda>s. Inr (Polygon [[[1 :: int, 2], [3, 4]]])" "''00''" "Polygon [[[1, 2], [3, 4]]]"
              "\<lambda>src dst c. Inr (map (\<lambda>v. case v of None \<Rightarrow> 0 | Some n \<Rightarrow> n + 10) c)"]
        from2180to4326_dispatch
          [of "\<lambda>s. Inr (LineString [[1 :: int, 2], [3, 4]])" "''00''" "LineString [[1, 2], [3, 4]]"
              "\<lambda>src dst c. Inr (map (\<lambda>v. case v of None \<Rightarrow> 0 | Some n \<Rightarrow> n + 10) c)"]
  by (simp add: elem_at_def)

text \<open>
  C5. When the projection returns on the coordinate pair of every point of a polygon,
  the reprojection of the polygon returns a polygon with as many rings, with as many
  points in each ring, and whose point \<open>j\<close> of ring \<open>i\<close> is the projection of point
  \<open>j\<close> of ring \<open>i\<close> of the input: the order of rings and of points is kept and only
  the coordinate values change.
\<close>

theorem transformPolygonCoordinates_structure:
  assumes "\<forall>ring \<in> set coord. \<forall>p \<in> set ring.
             \<exists>q. proj4 ''EPSG:2180'' ''EPSG:4326'' [elem_at p 0, elem_at p 1] = Inr q"
    and "parse s = Inr (Polygon coord)"
  shows "\<exists>coord'. transformPolygonCoordinates proj4 coord = Inr coord'
           \<and> from2180to4326 parse proj4 s = Inr (Polygon coord')
           \<and> length coord' = length coord
           \<and> map length coord' = map length coord
           \<and> (\<forall>i < length coord. \<forall>j < length (coord ! i).
                 proj4 ''EPSG:2180'' ''EPSG:4326''
                   [elem_at (coord ! i ! j) 0, elem_at (coord ! i ! j) 1]
                 = Inr (coord' ! i ! j))"
proof -
  let ?pair = "\<lambda>p. proj4 ''EPSG:2180'' ''EPSG:4326'' [elem_at p 0, elem_at p 1]"
  have "\<forall>ring \<in> set coord. \<exists>ring'. map_throwing ?pair ring = Inr ring'"
    using assms(1) by (simp add: map_throwing_returns)
  then obtain coord' where "map_throwing (map_throwing ?pair) coord = Inr coord'"
    using map_throwing_returns [of coord "map_throwing ?pair"] by blast
  then have ok: "transformPolygonCoordinates proj4 coord = Inr coord'"
    by (simp add: transformPolygonCoordinates_def)
  then have rel: "list_all2 (list_all2 (\<lambda>p q. ?pair p = Inr q)) coord coord'"
    by (simp add: transform_Inr_iff)
  have len: "length coord' = length coord"
    using rel by (simp add: list_all2_lengthD)
  have rings: "\<forall>i < length coord. list_all2 (\<lambda>p q. ?pair p = Inr q) (coord ! i) (coord' ! i)"
    using rel by (simp add: list_all2_conv_all_nth)
  have "\<forall>i < length coord. length (coord' ! i) = length (coord ! i)"
    using rings list_all2_lengthD by fastforce
  then have lens: "map length coord' = map length coord"
    using len by (simp add: list_eq_iff_nth_eq)
  have points: "\<forall>i < length coord. \<forall>j < length (coord ! i). ?pair (coord ! i ! j) = Inr (coord' ! i ! j)"
    using rings by (simp add: list_all2_conv_all_nth)
  have "from2180to4326 parse proj4 s = Inr (Polygon coord')"
    using assms(2) ok by (simp add: from2180to4326_def)
  then show ?thesis
    using ok len lens points by blast
qed

theorem transformPolygonCoordinates_structure_witness:
  "\<exists>coord'. transformPolygonCoordinates
               (\<lambda>src dst c. Inr (map (\<lambda>v. case v of None \<Rightarrow> 0 | Some n \<Rightarrow> n + 10) c))
               [[[1 :: int, 2], [3, 4], [1, 2]], [[5, 6]]] = Inr coord'
      \<and> length coord' = 2 \<and> map length coord' = [3, 1]"
  using transformPolygonCoordinates_structure
          [of "[[[1 :: int, 2], [3, 4], [1, 2]], [[5, 6]]]"
              "\<lambda>src dst c. Inr (map (\<lambda>v. case v of None \<Rightarrow> 0 | Some n \<Rightarrow> n + 10) c)"
              "\<lambda>s. Inr (Polygon [[[1 :: int, 2], [3, 4], [1, 2]], [[5, 6]]])" "''00''"]
  by auto

section \<open>The hook: failures and seeding\<close>

text \<open>
  C6. A geometry lookup whose request fails does not return \<open>undefined\<close>: neither
  \<open>getRegionGeometryById\<close> nor \<open>getParcelGeometryById\<close> catches the error of
  \<open>fetch\<close>, so the promise handed to the caller rejects with that error.
\<close>

theorem getGeometryById_network_failure:
  "fst (getRegionGeometryById (\<lambda>url. Inl (Error ''TypeError'' ''Failed to fetch''))
          parse proj4 ''02'' initial)
   = Inl (Error ''TypeError'' ''Failed to fetch'')
   \<and> fst (getParcelGeometryById (\<lambda>url. Inl (Error ''TypeError'' ''Failed to fetch''))
          parse proj4 ''141201_1.0001.1867/2'' initial)
   = Inl (Error ''TypeError'' ''Failed to fetch'')"
  by (simp add: getRegionGeometryById_def getParcelGeometryById_def)

text \<open>
  C7. A failing fetch of districts, tenants or precincts records no message: starting
  from the first render, the error slot is still \<open>null\<close> after the failure.
\<close>

theorem list_fetch_failure_error_slot:
  "error (fetchDistricts (\<lambda>url. Inl (Error ''TypeError'' ''Failed to fetch'')) ''02'' initial) = None
   \<and> error (fetchTenants (\<lambda>url. Inl (Error ''TypeError'' ''Failed to fetch'')) ''0201'' initial) = None
   \<and> error (fetchPrecincts (\<lambda>url. Inl (Error ''TypeError'' ''Failed to fetch'')) ''020101_1'' initial) = None"
  by (simp add: fetchDistricts_def fetchTenants_def fetchPrecincts_def fetchObject_def initial_def)

text \<open>
  C9. Seeding with a non-empty voivodeship code and nothing else issues exactly one
  request, the district request with that code as \<open>teryt\<close>. It sets the districts to
  the parsed response (or leaves them when the request fails) and leaves tenants,
  precincts, voivodeships and the error slot as they were. Mounting the hook with such
  a configuration requests the voivodeships and then that one district list, and ends
  with no tenants and no precincts.
\<close>

theorem seedCascade_voivodeship_only:
  assumes "v \<noteq> []"
  shows "requests (seedCascade net (Some \<lparr>voivodeship = Some v, district = None, tenant = None\<rparr>) h)
           = requests h @ [objectUrl ''powiat'' v]
       \<and> districts (seedCascade net (Some \<lparr>voivodeship = Some v, district = None, tenant = None\<rparr>) h)
           = (case net (objectUrl ''powiat'' v) of
                Inr data \<Rightarrow> prepareData data
              | Inl e \<Rightarrow> districts h)
       \<and> tenants (seedCascade net (Some \<lparr>voivodeship = Some v, district = None, tenant = None\<rparr>) h)
           = tenants h
       \<and> precincts (seedCascade net (Some \<lparr>voivodeship = Some v, district = None, tenant = None\<rparr>) h)
           = precincts h
       \<and> voivodeships (seedCascade net (Some \<lparr>voivodeship = Some v, district = None, tenant = None\<rparr>) h)
           = voivodeships h
       \<and> error (seedCascade net (Some \<lparr>voivodeship = Some v, district = None, tenant = None\<rparr>) h)
           = error h
       \<and> requests (useUldk net (Some \<lparr>voivodeship = Some v, district = None, tenant = None\<rparr>))
           = [''https://uldk.gugik.gov.pl/service.php?obiekt=wojewodztwo&wynik=wojewodztwo,teryt'',
              objectUrl ''powiat'' v]
       \<and> tenants (useUldk net (Some \<lparr>voivodeship = Some v, district = None, tenant = None\<rparr>)) = []
       \<and> precincts (useUldk net (Some \<lparr>voivodeship = Some v, district = None, tenant = None\<rparr>)) = []"
proof -
  let ?props = "Some \<lparr>voivodeship = Some v, district = None, tenant = None\<rparr>"
  have seed: "seedCascade net ?props k = fetchDistricts net v k" for k
    using assms by (simp add: seedCascade_def optional_chain_def)
  have fetch: "requests (fetchDistricts net v k) = requests k @ [objectUrl ''powiat'' v]
             \<and> districts (fetchDistricts net v k)
                 = (case net (objectUrl ''powiat'' v) of
                      Inr data \<Rightarrow> prepareData data
                    | Inl e \<Rightarrow> districts k)
             \<and> tenants (fetchDistricts net v k) = tenants k
             \<and> precincts (fetchDistricts net v k) = precincts k
             \<and> voivodeships (fetchDistricts net v k) = voivodeships k
             \<and> error (fetchDistricts net v k) = error k" for k
    by (simp add: fetchDistricts_def fetchObject_def Let_def split: sum.splits)
  have settle: "requests (settleVoivodeships net k) = requests k
              \<and> tenants (settleVoivodeships net k) = tenants k
              \<and> precincts (settleVoivodeships net k) = precincts k" for k
    by (simp add: settleVoivodeships_def split: sum.splits)
  have mount: "requests (requestVoivodeships initial) = [voivodeshipsUrl]
             \<and> tenants (requestVoivodeships initial) = []
             \<and> precincts (requestVoivodeships initial) = []"
    by (simp add: requestVoivodeships_def initial_def)
  show ?thesis
    unfolding useUldk_def seed using fetch settle mount
    by (simp add: voivodeshipsUrl_def)
qed

theorem seedCascade_voivodeship_only_witness:
  "requests (seedCascade (\<lambda>url. Inr ''header\<newline>A|0201'')
               (Some \<lparr>voivodeship = Some ''02'', district = None, tenant = None\<rparr>) initial)
     = [''https://uldk.gugik.gov.pl/service.php?obiekt=powiat&wynik=powiat,teryt&teryt=02'']
   \<and> districts (seedCascade (\<lambda>url. Inr ''header\<newline>A|0201'')
               (Some \<lparr>voivodeship = Some ''02'', district = None, tenant = None\<rparr>) initial)
     = [\<lparr>label = Some ''A'', value = Some ''0201''\<rparr>]
   \<and> tenants (seedCascade (\<lambda>url. Inr ''header\<newline>A|0201'')
               (Some \<lparr>voivodeship = Some ''02'', district = None, tenant = None\<rparr>) initial)
     = []
   \<and> precincts (seedCascade (\<lambda>url. Inr ''header\<newline>A|0201'')
               (Some \<lparr>voivodeship = Some ''02'', district = None, tenant = None\<rparr>) initial)
     = []"
  using seedCascade_voivodeship_only [of "''02''" "\<lambda>url. Inr ''header\<newline>A|0201''" initial]
  by (simp add: objectUrl_def initial_def prepareData_def elem_at_def)

text \<open>
  C10, as the code has it. When the request of a list fetch rejects (\<open>fetch\<close> or
  \<open>resp.text()\<close> rejects), \<open>fetchObject\<close> resolves to the abort closure, not to an
  array, and the fetch of that level leaves its list as it was: the only changes to
  the state of the hook are the request made and, unless the error is an
  \<open>AbortError\<close>, the error written to the console.
\<close>

theorem list_fetch_failure_keeps_lists:
  "(net (objectUrl ''powiat'' v) = Inl e \<longrightarrow>
      fst (fetchObject net ''powiat'' v h) = AbortClosure
      \<and> districts (fetchDistricts net v h) = districts h
      \<and> fetchDistricts net v h =
          h\<lparr>requests := requests h @ [objectUrl ''powiat'' v],
            console := console h @ (if name e \<noteq> ''AbortError'' then [e] else [])\<rparr>)
   \<and> (net (objectUrl ''gmina'' v) = Inl e \<longrightarrow>
      fst (fetchObject net ''gmina'' v h) = AbortClosure
      \<and> tenants (fetchTenants net v h) = tenants h
      \<and> fetchTenants net v h =
          h\<lparr>requests := requests h @ [objectUrl ''gmina'' v],
            console := console h @ (if name e \<noteq> ''AbortError'' then [e] else [])\<rparr>)
   \<and> (net (objectUrl ''obreb'' v) = Inl e \<longrightarrow>
      fst (fetchObject net ''obreb'' v h) = AbortClosure
      \<and> precincts (fetchPrecincts net v h) = precincts h
      \<and> fetchPrecincts net v h =
          h\<lparr>requests := requests h @ [objectUrl ''obreb'' v],
            console := console h @ (if name e \<noteq> ''AbortError'' then [e] else [])\<rparr>)"
  by (simp add: fetchDistricts_def fetchTenants_def fetchPrecincts_def fetchObject_def)

theorem list_fetch_failure_keeps_lists_witness:
  "districts (fetchDistricts (\<lambda>url. Inl (Error ''TypeError'' ''Failed to fetch'')) ''02''
                (initial\<lparr>districts := [\<lparr>label = Some ''A'', value = Some ''0201''\<rparr>]\<rparr>))
     = [\<lparr>label = Some ''A'', value = Some ''0201''\<rparr>]
   \<and> tenants (fetchTenants (\<lambda>url. Inl (Error ''TypeError'' ''Failed to fetch'')) ''02''
                (initial\<lparr>tenants := [\<lparr>label = Some ''B'', value = Some ''020101_1''\<rparr>]\<rparr>))
     = [\<lparr>label = Some ''B'', value = Some ''020101_1''\<rparr>]
   \<and> precincts (fetchPrecincts (\<lambda>url. Inl (Error ''TypeError'' ''Failed to fetch'')) ''02''
                (initial\<lparr>precincts := [\<lparr>label = Some ''C'', value = Some ''020101_1.0001''\<rparr>]\<rparr>))
     = [\<lparr>label = Some ''C'', value = Some ''020101_1.0001''\<rparr>]"
  using list_fetch_failure_keeps_lists
          [of "\<lambda>url. Inl (Error ''TypeError'' ''Failed to fetch'')" "''02''"
              "Error ''TypeError'' ''Failed to fetch''"
              "initial\<lparr>districts := [\<lparr>label = Some ''A'', value = Some ''0201''\<rparr>]\<rparr>"]
        list_fetch_failure_keeps_lists
          [of "\<lambda>url. Inl (Error ''TypeError'' ''Failed to fetch'')" "''02''"
              "Error ''TypeError'' ''Failed to fetch''"
              "initial\<lparr>tenants := [\<lparr>label = Some ''B'', value = Some ''020101_1''\<rparr>]\<rparr>"]
        list_fetch_failure_keeps_lists
          [of "\<lambda>url. Inl (Error ''TypeError'' ''Failed to fetch'')" "''02''"
              "Error ''TypeError'' ''Failed to fetch''"
              "initial\<lparr>precincts := [\<lparr>label = Some ''C'', value = Some ''020101_1.0001''\<rparr>]\<rparr>"]
  by (simp add: initial_def)

text \<open>
  C10 as the specification words it covers every failure of the fetch or of the
  parse. The code does not look at the status of the response and \<open>prepareData\<close>
  never throws: when the server answers a failed request with an error page, the
  request resolves, the page is parsed to the empty array, the array passes the
  \<open>Array.isArray\<close> guard and the districts that were there are cleared.
\<close>

theorem list_fetch_error_body_clears_list:
  "fst (fetchObject (\<lambda>url. Inr ''Internal Server Error'') ''powiat'' ''02''
          (initial\<lparr>districts := [\<lparr>label = Some ''A'', value = Some ''0201''\<rparr>]\<rparr>))
     = OptionArray []
   \<and> districts (fetchDistricts (\<lambda>url. Inr ''Internal Server Error'') ''02''
                  (initial\<lparr>districts := [\<lparr>label = Some ''A'', value = Some ''0201''\<rparr>]\<rparr>))
     = []
   \<and> districts (fetchDistricts (\<lambda>url. Inr ''Internal Server Error'') ''02''
                  (initial\<lparr>districts := [\<lparr>label = Some ''A'', value = Some ''0201''\<rparr>]\<rparr>))
     \<noteq> districts (initial\<lparr>districts := [\<lparr>label = Some ''A'', value = Some ''0201''\<rparr>]\<rparr>)"
  by (simp add: fetchDistricts_def fetchObject_def prepareData_def initial_def)

end
